theory Spec2Isabelle
  imports Complex_Main "HOL-Library.Signed_Division"
begin

section \<open>Dates, numbers and strings of the host language\<close>

text \<open>
  The module \<^verbatim>\<open>task/03-date-tasks.js\<close> works on JavaScript \<^verbatim>\<open>Date\<close> objects. A valid
  \<^verbatim>\<open>Date\<close> is its time value: the whole number of milliseconds since
  1970-01-01T00:00:00Z. \<^verbatim>\<open>Date.UTC(...)\<close>, which the examples of the source pass to
  \<^verbatim>\<open>angleBetweenClockHands\<close>, is that number itself, and \<^verbatim>\<open>new Date(n)\<close> wraps it.
  The time value of a valid date lies between -8,640,000,000,000,000 and
  8,640,000,000,000,000, so it is a whole number that a double holds exactly.
\<close>

type_synonym date = int

text \<open>
  A number of JavaScript is an IEEE double. A whole number up to \<open>2^53\<close> = 9007199254740992
  in magnitude is a double; above it the doubles are the multiples of 2 up to \<open>2^54\<close>, of 4
  up to \<open>2^55\<close>, and so on: \<open>ulp\<close> is that spacing. The difference of two dates can exceed
  \<open>2^53\<close>, and the subtraction then rounds it to the nearest double, a tie going to the
  double whose multiple of the spacing is even.
\<close>

function ulp :: "int \<Rightarrow> int" where
  "ulp n = (if n < 9007199254740992 then 1 else 2 * ulp (n div 2))"
  by pat_completeness auto
termination
  by (relation "measure nat") auto

definition roundToDouble :: "int \<Rightarrow> int" where
  "roundToDouble x =
     (let u = ulp \<bar>x\<bar>; q = x div u; r = x mod u
      in if 2 * r < u then q * u
         else if u < 2 * r then (q + 1) * u
         else if even q then q * u else (q + 1) * u)"

text \<open>
  \<^verbatim>\<open>getUTCHours\<close> and \<^verbatim>\<open>getUTCMinutes\<close> of ECMAScript: \<^verbatim>\<open>floor(t / msPerHour) modulo 24\<close>
  and \<^verbatim>\<open>floor(t / msPerMinute) modulo 60\<close>, with a result that is never negative.
\<close>

definition getUTCHours :: "date \<Rightarrow> int" where
  "getUTCHours t = (t div 3600000) mod 24"

definition getUTCMinutes :: "date \<Rightarrow> int" where
  "getUTCMinutes t = (t div 60000) mod 60"

text \<open>
  The conversion of a whole number to a string, as \<^verbatim>\<open>'0' + n\<close> and \<^verbatim>\<open>n + ':'\<close> perform it:
  the decimal digits, after a minus sign for a negative number.
\<close>

definition digitChar :: "nat \<Rightarrow> char" where
  "digitChar n = ''0123456789'' ! n"

fun digits :: "nat \<Rightarrow> string" where
  "digits n = (if n < 10 then [digitChar n] else digits (n div 10) @ [digitChar (n mod 10)])"

definition numberToString :: "int \<Rightarrow> string" where
  "numberToString k = (if k < 0 then ''-'' @ digits (nat (- k)) else digits (nat k))"


section \<open>The functions of the module\<close>

subsection \<open>parseDataFromRfc2822 and parseDataFromIso8601\<close>

text \<open>
  Both functions are \<^verbatim>\<open>return new Date(value)\<close>. The constructor of the host, applied to a
  string, is the parameter \<open>newDate\<close>; it yields a date, or \<open>None\<close> for the \<^verbatim>\<open>Invalid Date\<close>
  of the host. Which strings it accepts is decided by the host, not by the module.
\<close>

definition parseDataFromRfc2822 :: "(string \<Rightarrow> date option) \<Rightarrow> string \<Rightarrow> date option" where
  "parseDataFromRfc2822 newDate value = newDate value"

definition parseDataFromIso8601 :: "(string \<Rightarrow> date option) \<Rightarrow> string \<Rightarrow> date option" where
  "parseDataFromIso8601 newDate value = newDate value"

subsection \<open>isLeapYear\<close>

text \<open>
  \<^verbatim>\<open>date.getFullYear()\<close> is the year of the date in the local time zone of the host, which
  the module does not define: it is the parameter \<open>getFullYear\<close>. The operator \<^verbatim>\<open>%\<close> of
  JavaScript takes the sign of the dividend, as \<^term>\<open>(smod)\<close> does.
\<close>

definition isLeapYear :: "(date \<Rightarrow> int) \<Rightarrow> date \<Rightarrow> bool" where
  "isLeapYear getFullYear date =
     (let year = getFullYear date
      in if year smod 4 \<noteq> 0 then False
         else if year smod 100 \<noteq> 0 then True
         else if year smod 400 \<noteq> 0 then False
         else True)"

subsection \<open>timeSpanToString\<close>

text \<open>
  The four blocks of the source in their order; \<open>temp\<close> is the variable that each block
  reads and updates. The tests \<^verbatim>\<open>Math.floor((Math.abs(temp-time)/60000) < 10)\<close> and
  \<^verbatim>\<open>Math.floor((Math.abs(temp-time)/1000) < 10)\<close> take the floor of a boolean, which is
  truthy exactly when the comparison of the unrounded quotient holds.

  \<^verbatim>\<open>endDate - startDate\<close> is a subtraction of doubles, which rounds. The later steps are
  exact on the dates of the host: \<open>time\<close> is a whole number below \<open>2^54\<close>, each
  \<^verbatim>\<open>Math.floor\<close> of a quotient is the whole quotient, and \<open>temp\<close> and \<open>temp - time\<close> are whole
  numbers that a double holds. A quotient is a \<^typ>\<open>real\<close>.
\<close>

definition timeSpanToString :: "date \<Rightarrow> date \<Rightarrow> string" where
  "timeSpanToString startDate endDate =
     (let time = roundToDouble (endDate - startDate);
          (h, temp) =
            (if \<lfloor>real_of_int time / 3600000\<rfloor> > 0
             then (if \<lfloor>real_of_int time / 3600000\<rfloor> < 10
                   then ''0'' @ numberToString \<lfloor>real_of_int time / 3600000\<rfloor>
                   else numberToString \<lfloor>real_of_int time / 3600000\<rfloor>,
                   0 + \<lfloor>real_of_int time / 3600000\<rfloor> * 3600000)
             else (''00'', 0));
          (m, temp) =
            (if \<lfloor>real_of_int \<bar>temp - time\<bar> / 60000\<rfloor> > 0
             then (if real_of_int \<bar>temp - time\<bar> / 60000 < 10
                   then ''0'' @ numberToString \<lfloor>real_of_int \<bar>temp - time\<bar> / 60000\<rfloor>
                   else numberToString \<lfloor>real_of_int \<bar>temp - time\<bar> / 60000\<rfloor>,
                   temp + \<lfloor>real_of_int \<bar>temp - time\<bar> / 60000\<rfloor> * 60000)
             else (''00'', temp));
          (s, temp) =
            (if \<lfloor>real_of_int \<bar>temp - time\<bar> / 1000\<rfloor> > 0
             then (if real_of_int \<bar>temp - time\<bar> / 1000 < 10
                   then ''0'' @ numberToString \<lfloor>real_of_int \<bar>temp - time\<bar> / 1000\<rfloor>
                   else numberToString \<lfloor>real_of_int \<bar>temp - time\<bar> / 1000\<rfloor>,
                   temp + \<lfloor>real_of_int \<bar>temp - time\<bar> / 1000\<rfloor> * 1000)
             else (''00'', temp));
          ms =
            (if \<bar>temp - time\<bar> > 0
             then (if \<bar>temp - time\<bar> < 10 then ''00'' @ numberToString \<bar>temp - time\<bar>
                   else if \<bar>temp - time\<bar> < 100 then ''0'' @ numberToString \<bar>temp - time\<bar>
                   else numberToString \<bar>temp - time\<bar>)
             else ''000'')
      in h @ '':'' @ m @ '':'' @ s @ ''.'' @ ms)"

subsection \<open>angleBetweenClockHands\<close>

text \<open>The angle is a \<^typ>\<open>real\<close>, and \<^verbatim>\<open>Math.PI\<close> is \<^term>\<open>pi\<close>.\<close>

definition angleBetweenClockHands :: "date \<Rightarrow> real" where
  "angleBetweenClockHands date =
     (let time = date;
          h = getUTCHours time;
          m = getUTCMinutes time;
          h = (if h \<ge> 12 then h - 12 else h);
          angle = (real_of_int (h * 60 + m) / 2) - real_of_int (6 * m);
          angle = (if angle > 180 then 360 - angle else angle)
      in \<bar>angle\<bar> * pi / 180)"


section \<open>The algorithms as the specification words them\<close>

text \<open>
  The timespan format of the specification: the duration is divided by 3,600,000, 60,000,
  1,000 and 1 in turn, each remainder passing to the next unit; hours, minutes and seconds
  are padded with zeros to two digits, milliseconds to three.
\<close>

definition zeroPad :: "nat \<Rightarrow> string \<Rightarrow> string" where
  "zeroPad w str = replicate (w - length str) (CHR ''0'') @ str"

definition formatTimespan_spec :: "int \<Rightarrow> string" where
  "formatTimespan_spec d =
     (let hours = d div 3600000; r1 = d mod 3600000;
          minutes = r1 div 60000; r2 = r1 mod 60000;
          seconds = r2 div 1000; r3 = r2 mod 1000;
          millis = r3 div 1
      in zeroPad 2 (numberToString hours) @ '':'' @ zeroPad 2 (numberToString minutes) @ '':'' @
         zeroPad 2 (numberToString seconds) @ ''.'' @ zeroPad 3 (numberToString millis))"

text \<open>
  The clock angle of the specification: the hour is reduced modulo 12, the absolute value
  of the signed angle in degrees is taken first, and an angle above 180 is replaced by
  360 minus it.
\<close>

definition angleBetweenHands_spec :: "date \<Rightarrow> real" where
  "angleBetweenHands_spec date =
     (let h = getUTCHours date mod 12;
          m = getUTCMinutes date;
          angle = \<bar>real_of_int (h * 60 + m) / 2 - real_of_int (6 * m)\<bar>;
          angle = (if angle > 180 then 360 - angle else angle)
      in angle * pi / 180)"

text \<open>
  Modelled from the spec: the decimal digits that the reference parser of the format
  \<^verbatim>\<open>HH:mm:ss.sss\<close> reads. A component is a string of digits that is not empty.
\<close>

definition isDigit :: "char \<Rightarrow> bool" where
  "isDigit c = (48 \<le> (of_char c :: nat) \<and> (of_char c :: nat) \<le> 57)"

definition digitValue :: "char \<Rightarrow> nat" where
  "digitValue c = of_char c - 48"

definition parseDigits :: "string \<Rightarrow> nat option" where
  "parseDigits str =
     (if str = [] \<or> \<not> list_all isDigit str then None
      else Some (foldl (\<lambda>acc c. 10 * acc + digitValue c) 0 str))"

text \<open>
  Modelled from the spec: a reference parser for the format \<^verbatim>\<open>HH:mm:ss.sss\<close>, which the
  module does not contain. It accepts two or more hour digits, a colon, two minute digits
  below 60, a colon, two second digits below 60, a dot and three millisecond digits, and
  returns the duration in milliseconds.
\<close>

definition parseTimespan_ref :: "string \<Rightarrow> int option" where
  "parseTimespan_ref str =
     (let hs = takeWhile (\<lambda>c. c \<noteq> CHR '':'') str;
          rest = dropWhile (\<lambda>c. c \<noteq> CHR '':'') str
      in if length hs \<ge> 2 \<and> length rest = 10 \<and>
            rest ! 0 = CHR '':'' \<and> rest ! 3 = CHR '':'' \<and> rest ! 6 = CHR ''.''
         then (case (parseDigits hs, parseDigits (take 2 (drop 1 rest)),
                     parseDigits (take 2 (drop 4 rest)), parseDigits (drop 7 rest)) of
                 (Some h, Some m, Some s, Some ms) \<Rightarrow>
                   if m < 60 \<and> s < 60
                   then Some (int h * 3600000 + int m * 60000 + int s * 1000 + int ms)
                   else None
               | _ \<Rightarrow> None)
         else None)"


section \<open>Arithmetic and string lemmas\<close>

lemma floor_div_3600000: "\<lfloor>real_of_int k / 3600000\<rfloor> = k div 3600000"
  using floor_divide_of_int_eq [of k 3600000, where ?'a = real] by simp

lemma floor_div_60000: "\<lfloor>real_of_int k / 60000\<rfloor> = k div 60000"
  using floor_divide_of_int_eq [of k 60000, where ?'a = real] by simp

lemma floor_div_1000: "\<lfloor>real_of_int k / 1000\<rfloor> = k div 1000"
  using floor_divide_of_int_eq [of k 1000, where ?'a = real] by simp


text \<open>The subtraction of doubles is exact up to \<open>2^53\<close>, and keeps the sign.\<close>

declare ulp.simps [simp del]

lemma ulp_small: "n < 9007199254740992 \<Longrightarrow> ulp n = 1"
  by (simp add: ulp.simps)

lemma ulp_large: "9007199254740992 \<le> n \<Longrightarrow> ulp n = 2 * ulp (n div 2)"
  by (simp add: ulp.simps [of n])

lemma ulp_pos: "0 < ulp n"
  by (induction n rule: ulp.induct) (simp add: ulp.simps)

lemma roundToDouble_exact:
  assumes "\<bar>x\<bar> \<le> 9007199254740992"
  shows "roundToDouble x = x"
proof (cases "\<bar>x\<bar> < 9007199254740992")
  case True
  then show ?thesis
    by (simp add: roundToDouble_def ulp_small)
next
  case False
  with assms have "\<bar>x\<bar> = 9007199254740992"
    by simp
  then have "x = 9007199254740992 \<or> x = - 9007199254740992"
    by linarith
  then show ?thesis
    by (auto simp: roundToDouble_def ulp_large ulp_small)
qed

lemma roundToDouble_nonneg:
  assumes "0 \<le> x"
  shows "0 \<le> roundToDouble x"
proof -
  have u: "0 < ulp \<bar>x\<bar>"
    by (rule ulp_pos)
  then have "0 \<le> x div ulp \<bar>x\<bar>"
    using assms by (simp add: pos_imp_zdiv_nonneg_iff)
  with u show ?thesis
    by (simp add: roundToDouble_def Let_def)
qed

text \<open>
  The longest span between two valid dates that is odd, 8639999999999999 minus
  -8640000000000000: the subtraction rounds it up to the next multiple of 4.
\<close>

lemma roundToDouble_longest_odd_span:
  "roundToDouble 17279999999999999 = 17280000000000000"
  by (simp add: roundToDouble_def ulp_large ulp_small)


section \<open>The two parsing functions\<close>

text \<open>
  The module adds nothing to the constructor of the host: the two functions are the same
  function, and each accepts exactly the strings that the host accepts.
\<close>

lemma parse_functions_are_host_constructor:
  "parseDataFromRfc2822 newDate str = newDate str"
  "parseDataFromIso8601 newDate str = parseDataFromRfc2822 newDate str"
  by (simp_all add: parseDataFromRfc2822_def parseDataFromIso8601_def)

text \<open>
  Neither function tests its string against a grammar. Let \<open>rfc2822\<close> and \<open>iso8601\<close> be the two
  grammars, and let the host parse every string that is valid in one of them. Then a string
  that is valid in one grammar only is accepted by the function of the other grammar.
\<close>

lemma parse_functions_accept_other_format:
  assumes host: "\<forall>s. rfc2822 s \<or> iso8601 s \<longrightarrow> newDate s \<noteq> None"
    and differ: "rfc2822 str \<noteq> iso8601 str"
  shows "(\<not> rfc2822 str \<and> parseDataFromRfc2822 newDate str \<noteq> None) \<or>
         (\<not> iso8601 str \<and> parseDataFromIso8601 newDate str \<noteq> None)"
proof (cases "rfc2822 str")
  case True
  with differ have "\<not> iso8601 str"
    by simp
  moreover from True host have "newDate str \<noteq> None"
    by blast
  ultimately show ?thesis
    by (simp add: parseDataFromIso8601_def)
next
  case False
  with differ have "iso8601 str"
    by simp
  with host have "newDate str \<noteq> None"
    by blast
  with False show ?thesis
    by (simp add: parseDataFromRfc2822_def)
qed

text \<open>
  Claim C6. For every input string that does not conform to the expected date grammar,
  \<open>parseDataFromRfc2822\<close> and \<open>parseDataFromIso8601\<close> return the invalid value of the language,
  and never coerce the input to a default date.

  The functions do less than that, by design: each returns what the constructor of the host
  returns, the invalid value exactly when the host rejects the string, and no date of its
  own. A string outside the grammar of a function that the host parses is accepted; when
  the host parses the valid strings of both grammars, that is every string valid in the
  other grammar only.
\<close>

theorem parse_functions_follow_host:
  "parseDataFromRfc2822 newDate str = newDate str \<and>
   parseDataFromIso8601 newDate str = newDate str \<and>
   (parseDataFromRfc2822 newDate str = None \<longleftrightarrow> newDate str = None) \<and>
   (parseDataFromIso8601 newDate str = None \<longleftrightarrow> newDate str = None) \<and>
   ((\<forall>s. rfc2822 s \<or> iso8601 s \<longrightarrow> newDate s \<noteq> None) \<and> rfc2822 str \<noteq> iso8601 str \<longrightarrow>
      (\<not> rfc2822 str \<and> parseDataFromRfc2822 newDate str \<noteq> None) \<or>
      (\<not> iso8601 str \<and> parseDataFromIso8601 newDate str \<noteq> None))"
proof (intro conjI impI)
  assume "(\<forall>s. rfc2822 s \<or> iso8601 s \<longrightarrow> newDate s \<noteq> None) \<and> rfc2822 str \<noteq> iso8601 str"
  then show "(\<not> rfc2822 str \<and> parseDataFromRfc2822 newDate str \<noteq> None) \<or>
      (\<not> iso8601 str \<and> parseDataFromIso8601 newDate str \<noteq> None)"
    using parse_functions_accept_other_format [of rfc2822 iso8601 newDate str] by blast
qed (simp_all add: parseDataFromRfc2822_def parseDataFromIso8601_def)

text \<open>
  A host that parses the two strings \<^verbatim>\<open>'Tue, 26 Jan 2016 13:48:02 GMT'\<close> and
  \<^verbatim>\<open>'2016-01-19T08:07:37Z'\<close> of the examples of the source, the first one valid for RFC 2822
  only and the second one for ISO 8601 only: \<open>parseDataFromIso8601\<close> returns the date of the
  first string.
\<close>

theorem parse_functions_follow_host_witness:
  "parseDataFromIso8601
     (\<lambda>s. if s = ''Tue, 26 Jan 2016 13:48:02 GMT'' then Some 1453816082000
          else if s = ''2016-01-19T08:07:37Z'' then Some 1453190857000 else None)
     ''Tue, 26 Jan 2016 13:48:02 GMT'' = Some 1453816082000"
proof -
  define newDate :: "string \<Rightarrow> date option" where
    "newDate = (\<lambda>s. if s = ''Tue, 26 Jan 2016 13:48:02 GMT'' then Some 1453816082000
          else if s = ''2016-01-19T08:07:37Z'' then Some 1453190857000 else None)"
  define rfc2822 :: "string \<Rightarrow> bool" where
    "rfc2822 = (\<lambda>s. s = ''Tue, 26 Jan 2016 13:48:02 GMT'')"
  define iso8601 :: "string \<Rightarrow> bool" where
    "iso8601 = (\<lambda>s. s = ''2016-01-19T08:07:37Z'')"
  have host: "\<forall>s. rfc2822 s \<or> iso8601 s \<longrightarrow> newDate s \<noteq> None"
    by (simp add: rfc2822_def iso8601_def newDate_def)
  have differ: "rfc2822 ''Tue, 26 Jan 2016 13:48:02 GMT'' \<noteq> iso8601 ''Tue, 26 Jan 2016 13:48:02 GMT''"
    by (simp add: rfc2822_def iso8601_def)
  have valid: "rfc2822 ''Tue, 26 Jan 2016 13:48:02 GMT''"
    by (simp add: rfc2822_def)
  have value_of: "newDate ''Tue, 26 Jan 2016 13:48:02 GMT'' = Some 1453816082000"
    by (simp add: newDate_def)
  from parse_functions_follow_host [of newDate "''Tue, 26 Jan 2016 13:48:02 GMT''" rfc2822 iso8601]
    host differ valid
  have "\<not> iso8601 ''Tue, 26 Jan 2016 13:48:02 GMT'' \<and>
      parseDataFromIso8601 newDate ''Tue, 26 Jan 2016 13:48:02 GMT'' \<noteq> None"
    and "parseDataFromIso8601 newDate ''Tue, 26 Jan 2016 13:48:02 GMT'' =
      newDate ''Tue, 26 Jan 2016 13:48:02 GMT''"
    by blast+
  then show ?thesis
    unfolding value_of newDate_def by simp
qed

text \<open>
  The claim is false of the module: it is not so that on every host that parses the valid
  strings of both grammars, where the example \<^verbatim>\<open>'Tue, 26 Jan 2016 13:48:02 GMT'\<close> of the source
  is valid for RFC 2822 and not for ISO 8601, both functions reject every string outside
  their grammar.
\<close>

theorem parse_functions_reject_counterexample:
  "\<not> (\<forall>newDate rfc2822 iso8601.
        (\<forall>s. rfc2822 s \<or> iso8601 s \<longrightarrow> newDate s \<noteq> None) \<longrightarrow>
        rfc2822 ''Tue, 26 Jan 2016 13:48:02 GMT'' \<longrightarrow>
        \<not> iso8601 ''Tue, 26 Jan 2016 13:48:02 GMT'' \<longrightarrow>
        (\<forall>s. \<not> rfc2822 s \<longrightarrow> parseDataFromRfc2822 newDate s = None) \<and>
        (\<forall>s. \<not> iso8601 s \<longrightarrow> parseDataFromIso8601 newDate s = None))"
proof
  assume claim: "\<forall>newDate rfc2822 iso8601.
        (\<forall>s. rfc2822 s \<or> iso8601 s \<longrightarrow> newDate s \<noteq> None) \<longrightarrow>
        rfc2822 ''Tue, 26 Jan 2016 13:48:02 GMT'' \<longrightarrow>
        \<not> iso8601 ''Tue, 26 Jan 2016 13:48:02 GMT'' \<longrightarrow>
        (\<forall>s. \<not> rfc2822 s \<longrightarrow> parseDataFromRfc2822 newDate s = None) \<and>
        (\<forall>s. \<not> iso8601 s \<longrightarrow> parseDataFromIso8601 newDate s = None)"
  define newDate :: "string \<Rightarrow> date option" where
    "newDate = (\<lambda>s. if s = ''Tue, 26 Jan 2016 13:48:02 GMT'' then Some 1453816082000
          else if s = ''2016-01-19T08:07:37Z'' then Some 1453190857000 else None)"
  define rfc2822 :: "string \<Rightarrow> bool" where
    "rfc2822 = (\<lambda>s. s = ''Tue, 26 Jan 2016 13:48:02 GMT'')"
  define iso8601 :: "string \<Rightarrow> bool" where
    "iso8601 = (\<lambda>s. s = ''2016-01-19T08:07:37Z'')"
  have "\<forall>s. rfc2822 s \<or> iso8601 s \<longrightarrow> newDate s \<noteq> None"
    by (simp add: rfc2822_def iso8601_def newDate_def)
  moreover have "rfc2822 ''Tue, 26 Jan 2016 13:48:02 GMT''"
    by (simp add: rfc2822_def)
  moreover have no: "\<not> iso8601 ''Tue, 26 Jan 2016 13:48:02 GMT''"
    by (simp add: iso8601_def)
  ultimately have "\<forall>s. \<not> iso8601 s \<longrightarrow> parseDataFromIso8601 newDate s = None"
    using claim by blast
  with no have "parseDataFromIso8601 newDate ''Tue, 26 Jan 2016 13:48:02 GMT'' = None"
    by blast
  then show False
    by (simp add: parseDataFromIso8601_def newDate_def)
qed


section \<open>isLeapYear follows the Gregorian rule\<close>

text \<open>The remainder test of the source is a divisibility test, whatever the sign of the year.\<close>

lemma smod_eq_0_iff_dvd: "(k::int) smod l = 0 \<longleftrightarrow> l dvd k"
proof -
  have "k smod l = 0 \<longleftrightarrow> \<bar>k\<bar> mod \<bar>l\<bar> = 0"
    by (cases "k = 0") (simp_all add: signed_modulo_int_def sgn_if)
  also have "\<dots> \<longleftrightarrow> \<bar>l\<bar> dvd \<bar>k\<bar>"
    by (simp add: dvd_eq_mod_eq_0)
  also have "\<dots> \<longleftrightarrow> l dvd k"
    by simp
  finally show ?thesis .
qed

text \<open>
  Claim C4. For every date, \<open>isLeapYear\<close> returns true if and only if the year of the date
  is divisible by 4 and not by 100, or divisible by 400. In particular it returns false for
  the year 1900, true for 2000, false for 2001, true for 2012 and false for 2015.
\<close>

theorem isLeapYear_gregorian:
  "(isLeapYear getFullYear date \<longleftrightarrow>
      (4 dvd getFullYear date \<and> \<not> 100 dvd getFullYear date) \<or> 400 dvd getFullYear date) \<and>
   (getFullYear date = 1900 \<longrightarrow> \<not> isLeapYear getFullYear date) \<and>
   (getFullYear date = 2000 \<longrightarrow> isLeapYear getFullYear date) \<and>
   (getFullYear date = 2001 \<longrightarrow> \<not> isLeapYear getFullYear date) \<and>
   (getFullYear date = 2012 \<longrightarrow> isLeapYear getFullYear date) \<and>
   (getFullYear date = 2015 \<longrightarrow> \<not> isLeapYear getFullYear date)"
proof -
  have rule: "isLeapYear getFullYear date \<longleftrightarrow>
      (4 dvd getFullYear date \<and> \<not> 100 dvd getFullYear date) \<or> 400 dvd getFullYear date"
  proof -
    have "400 dvd getFullYear date \<Longrightarrow> 4 dvd getFullYear date"
      by (rule dvd_trans [of 4 400]) simp_all
    moreover have "400 dvd getFullYear date \<Longrightarrow> 100 dvd getFullYear date"
      by (rule dvd_trans [of 100 400]) simp_all
    ultimately show ?thesis
      unfolding isLeapYear_def Let_def smod_eq_0_iff_dvd by auto
  qed
  show ?thesis
    unfolding rule by (intro conjI impI) simp_all
qed

text \<open>The five years of the reference table, each as the year of a date.\<close>

theorem isLeapYear_gregorian_witness:
  "\<not> isLeapYear (\<lambda>d. 1900) 0 \<and> isLeapYear (\<lambda>d. 2000) 0 \<and> \<not> isLeapYear (\<lambda>d. 2001) 0 \<and>
   isLeapYear (\<lambda>d. 2012) 0 \<and> \<not> isLeapYear (\<lambda>d. 2015) 0"
  using isLeapYear_gregorian [of "\<lambda>d. 1900" 0] isLeapYear_gregorian [of "\<lambda>d. 2000" 0]
    isLeapYear_gregorian [of "\<lambda>d. 2001" 0] isLeapYear_gregorian [of "\<lambda>d. 2012" 0]
    isLeapYear_gregorian [of "\<lambda>d. 2015" 0]
  by simp


section \<open>Decimal strings and zero padding\<close>

declare digits.simps [simp del]

lemma digits_lt_10: "n < 10 \<Longrightarrow> digits n = [digitChar n]"
  by (simp add: digits.simps)

lemma digits_ge_10: "10 \<le> n \<Longrightarrow> digits n = digits (n div 10) @ [digitChar (n mod 10)]"
  by (simp add: digits.simps [of n])

lemma digits_not_Nil: "digits n \<noteq> []"
  by (cases "n < 10") (simp_all add: digits_lt_10 digits_ge_10)

lemma length_digits_lt_100: "10 \<le> n \<Longrightarrow> n < 100 \<Longrightarrow> length (digits n) = 2"
  by (simp add: digits_ge_10 digits_lt_10)

lemma length_digits_lt_1000: "100 \<le> n \<Longrightarrow> n < 1000 \<Longrightarrow> length (digits n) = 3"
  by (simp add: digits_ge_10 [of n] length_digits_lt_100)

lemma length_digits_ge_10: "10 \<le> n \<Longrightarrow> 2 \<le> length (digits n)"
  using digits_not_Nil [of "n div 10"] by (simp add: digits_ge_10 Suc_le_eq)

section \<open>timeSpanToString on spans that are not negative\<close>

lemma case_prod_if:
  "(case (if c then (a, b) else (a', b')) of (x, y) \<Rightarrow> f x y) =
     f (if c then a else a') (if c then b else b')"
  by simp

text \<open>
  The nested tests on a component of the source are zero padding: to two digits for hours,
  minutes and seconds, to three for milliseconds.
\<close>

lemma zeroPad2_text:
  "0 \<le> q \<Longrightarrow>
   (if 0 < q then (if q < 10 then ''0'' @ numberToString q else numberToString q) else ''00'') =
     zeroPad 2 (numberToString q)"
  using length_digits_ge_10 [of "nat q"]
  by (auto simp: zeroPad_def numberToString_def digits_lt_10 digitChar_def)

lemma zeroPad3_text:
  "0 \<le> q \<Longrightarrow> q < 1000 \<Longrightarrow>
   (if 0 < q then (if q < 10 then ''00'' @ numberToString q
                   else if q < 100 then ''0'' @ numberToString q else numberToString q)
    else ''000'') = zeroPad 3 (numberToString q)"
  using length_digits_lt_100 [of "nat q"] length_digits_lt_1000 [of "nat q"]
  by (auto simp: zeroPad_def numberToString_def digits_lt_10 digitChar_def eval_nat_numeral)


text \<open>One block of the source moves \<open>temp\<close> up to the next multiple of its unit.\<close>

lemma temp_step:
  fixes r c t :: int
  assumes "0 \<le> r" "0 < c"
  shows "(if 0 < r div c then t + r div c * c else t) = t + r - r mod c"
proof (cases "0 < r div c")
  case True
  then show ?thesis by (simp add: minus_mod_eq_div_mult [symmetric])
next
  case False
  moreover have "0 \<le> r div c" using assms by (simp add: pos_imp_zdiv_nonneg_iff)
  ultimately have "r div c = 0" by simp
  then have "r mod c = r" using div_mult_mod_eq [of r c] by simp
  with False show ?thesis by simp
qed

lemma quotient_lt_10:
  "(real_of_int r / real_of_int c < 10) = (r div c < 10)"
proof -
  have "(r div c < 10) = (\<lfloor>real_of_int r / real_of_int c\<rfloor> < 10)"
    by (simp add: floor_divide_of_int_eq)
  also have "\<dots> = (real_of_int r / real_of_int c < 10)"
    by (simp add: floor_less_iff)
  finally show ?thesis by simp
qed

text \<open>
  The string that the source builds when the end is not before the start, from the span
  \<open>d\<close> as the subtraction of doubles gives it, with the
  remainders \<open>r1\<close>, \<open>r2\<close>, \<open>r3\<close> that its variable \<open>temp\<close> leaves at each block.
\<close>

lemma timeSpanToString_nonneg:
  assumes "startDate \<le> endDate"
  shows "timeSpanToString startDate endDate =
     (let d = roundToDouble (endDate - startDate);
          r1 = d mod 3600000; r2 = r1 mod 60000; r3 = r2 mod 1000
      in zeroPad 2 (numberToString (d div 3600000)) @ '':'' @
         zeroPad 2 (numberToString (r1 div 60000)) @ '':'' @
         zeroPad 2 (numberToString (r2 div 1000)) @ ''.'' @
         zeroPad 3 (numberToString r3))"
proof -
  define d where "d = roundToDouble (endDate - startDate)"
  define r1 where "r1 = d mod 3600000"
  define r2 where "r2 = r1 mod 60000"
  define r3 where "r3 = r2 mod 1000"
  have d: "0 \<le> d" using assms by (simp add: d_def roundToDouble_nonneg)
  have r1: "0 \<le> r1" and r2: "0 \<le> r2" and r3: "0 \<le> r3" "r3 < 1000"
    by (simp_all add: r1_def r2_def r3_def)
  have T1: "(if 0 < d div 3600000 then 0 + d div 3600000 * 3600000 else 0) = d - r1"
    using temp_step [of d 3600000 0] d by (simp add: r1_def)
  have R1: "\<bar>d - r1 - d\<bar> = r1" using r1 by simp
  have T2: "(if 0 < r1 div 60000 then d - r1 + r1 div 60000 * 60000 else d - r1) = d - r2"
    using temp_step [of r1 60000 "d - r1"] r1 by (simp add: r2_def)
  have R2: "\<bar>d - r2 - d\<bar> = r2" using r2 by simp
  have T3: "(if 0 < r2 div 1000 then d - r2 + r2 div 1000 * 1000 else d - r2) = d - r3"
    using temp_step [of r2 1000 "d - r2"] r2 by (simp add: r3_def)
  have R3: "\<bar>d - r3 - d\<bar> = r3" using r3 by simp
  have C2: "(real_of_int r1 / 60000 < 10) = (r1 div 60000 < 10)"
    using quotient_lt_10 [of r1 60000] by simp
  have C3: "(real_of_int r2 / 1000 < 10) = (r2 div 1000 < 10)"
    using quotient_lt_10 [of r2 1000] by simp
  have H1: "(if 0 < d div 3600000
             then (if d div 3600000 < 10 then ''0'' @ numberToString (d div 3600000)
                   else numberToString (d div 3600000)) else ''00'') =
            zeroPad 2 (numberToString (d div 3600000))"
    using d by (intro zeroPad2_text) (simp add: pos_imp_zdiv_nonneg_iff)
  have H2: "(if 0 < r1 div 60000
             then (if r1 div 60000 < 10 then ''0'' @ numberToString (r1 div 60000)
                   else numberToString (r1 div 60000)) else ''00'') =
            zeroPad 2 (numberToString (r1 div 60000))"
    using r1 by (intro zeroPad2_text) (simp add: pos_imp_zdiv_nonneg_iff)
  have H3: "(if 0 < r2 div 1000
             then (if r2 div 1000 < 10 then ''0'' @ numberToString (r2 div 1000)
                   else numberToString (r2 div 1000)) else ''00'') =
            zeroPad 2 (numberToString (r2 div 1000))"
    using r2 by (intro zeroPad2_text) (simp add: pos_imp_zdiv_nonneg_iff)
  have H4: "(if 0 < r3
             then (if r3 < 10 then ''00'' @ numberToString r3
                   else if r3 < 100 then ''0'' @ numberToString r3 else numberToString r3)
             else ''000'') = zeroPad 3 (numberToString r3)"
    using r3 by (intro zeroPad3_text)
  have "timeSpanToString startDate endDate =
          zeroPad 2 (numberToString (d div 3600000)) @ '':'' @
          zeroPad 2 (numberToString (r1 div 60000)) @ '':'' @
          zeroPad 2 (numberToString (r2 div 1000)) @ ''.'' @
          zeroPad 3 (numberToString r3)"
    unfolding timeSpanToString_def Let_def case_prod_if floor_div_3600000 floor_div_60000
      floor_div_1000 d_def [symmetric] T1 R1 T2 R2 T3 R3 C2 C3 H1 H2 H3 H4
    by (rule refl)
  then show ?thesis
    by (simp add: Let_def d_def r1_def r2_def r3_def)
qed

text \<open>The five examples of the source, evaluated on the code.\<close>

lemma timeSpanToString_examples:
  "timeSpanToString 949399200000 949402800000 = ''01:00:00.000''"
  "timeSpanToString 949399200000 949401000000 = ''00:30:00.000''"
  "timeSpanToString 949399200000 949399220000 = ''00:00:20.000''"
  "timeSpanToString 949399200000 949399200250 = ''00:00:00.250''"
  "timeSpanToString 949399200000 949418410453 = ''05:20:10.453''"
  by code_simp+

text \<open>
  The source does not reject a span that is negative: the end one millisecond before the
  start is rendered like one millisecond after it.
\<close>

lemma timeSpanToString_negative_example:
  "timeSpanToString 949399200001 949399200000 = ''00:00:00.001''"
  by code_simp

text \<open>
  For every pair of dates with the end not before the start, the string is that of the
  specification for the span as the subtraction of doubles gives it.
\<close>

lemma timeSpanToString_rounded_span:
  "startDate \<le> endDate \<Longrightarrow>
     timeSpanToString startDate endDate =
       formatTimespan_spec (roundToDouble (endDate - startDate))"
  by (simp add: timeSpanToString_nonneg formatTimespan_spec_def Let_def)

text \<open>
  Claim C3. For every pair of dates with the end not before the start, \<open>timeSpanToString\<close>
  returns the string of the specification: the duration in milliseconds divided by 3,600,000,
  60,000, 1,000 and 1 with cascading remainders, hours padded with zeros to two digits (and
  longer from 100 on), minutes and seconds to two digits, milliseconds to three, joined by
  colons and a dot before the milliseconds.

  The claim holds for every span of at most \<open>2^53\<close> = 9007199254740992 milliseconds, which
  the subtraction of the source computes exactly.
\<close>

theorem timeSpanToString_matches_format:
  "startDate \<le> endDate \<Longrightarrow> endDate - startDate \<le> 9007199254740992 \<Longrightarrow>
     timeSpanToString startDate endDate = formatTimespan_spec (endDate - startDate)"
  by (simp add: timeSpanToString_rounded_span roundToDouble_exact)

text \<open>A span of 123 hours, 4 minutes, 5 seconds and 6 milliseconds.\<close>

theorem timeSpanToString_matches_format_witness:
  "(949399200000::int) \<le> 949842245006 \<and>
   (949842245006::int) - 949399200000 \<le> 9007199254740992 \<and>
   timeSpanToString 949399200000 949842245006 = ''123:04:05.006''"
proof -
  have "formatTimespan_spec (949842245006 - 949399200000) = ''123:04:05.006''"
    by code_simp
  with timeSpanToString_matches_format [of 949399200000 949842245006] show ?thesis
    by simp
qed

text \<open>
  The claim fails on a longer span. From the earliest valid date to one millisecond before
  the latest the span is 17,279,999,999,999,999 milliseconds; the subtraction of the source
  rounds it to 17,280,000,000,000,000, and the string is one millisecond off the
  decomposition of the span.
\<close>

theorem timeSpanToString_matches_format_counterexample:
  "(- 8640000000000000 :: int) \<le> 8639999999999999 \<and>
   timeSpanToString (- 8640000000000000) 8639999999999999 = ''4800000000:00:00.000'' \<and>
   formatTimespan_spec (8639999999999999 - (- 8640000000000000)) = ''4799999999:59:59.999'' \<and>
   timeSpanToString (- 8640000000000000) 8639999999999999 \<noteq>
     formatTimespan_spec (8639999999999999 - (- 8640000000000000))"
proof -
  have code: "timeSpanToString (- 8640000000000000) 8639999999999999 =
      formatTimespan_spec 17280000000000000"
    by (simp add: timeSpanToString_rounded_span roundToDouble_longest_odd_span)
  have nts: "numberToString 4800000000 = ''4800000000''"
    "numberToString 4799999999 = ''4799999999''" "numberToString 0 = ''0''"
    "numberToString 59 = ''59''" "numberToString 999 = ''999''"
    by (simp_all add: numberToString_def digits_ge_10 digits_lt_10 digitChar_def)
  have pads: "zeroPad 2 ''4800000000'' = ''4800000000''"
    "zeroPad 2 ''4799999999'' = ''4799999999''" "zeroPad 2 ''0'' = ''00''"
    "zeroPad 3 ''0'' = ''000''" "zeroPad 2 ''59'' = ''59''" "zeroPad 3 ''999'' = ''999''"
    by (simp_all add: zeroPad_def numeral_2_eq_2)
  have rounded: "formatTimespan_spec 17280000000000000 = ''4800000000:00:00.000''"
    unfolding formatTimespan_spec_def Let_def by (simp add: nts pads)
  have exact: "formatTimespan_spec (8639999999999999 - (- 8640000000000000)) =
      ''4799999999:59:59.999''"
    unfolding formatTimespan_spec_def Let_def by (simp add: nts pads)
  show ?thesis
    unfolding code rounded exact by simp
qed

text \<open>
  Claim C9. For every date \<open>d\<close>, \<open>timeSpanToString d d\<close> is exactly \<open>00:00:00.000\<close>: no test of
  the source succeeds on a zero duration, and every component keeps its initial value.
\<close>

theorem timeSpanToString_zero: "timeSpanToString d d = ''00:00:00.000''"
  by (simp add: timeSpanToString_def roundToDouble_exact)


section \<open>Parsing a formatted timespan back\<close>

text \<open>Reading the digits of a number, padded or not, gives the number back.\<close>

lemma digitChar_cases:
  assumes "k < 10"
  shows "isDigit (digitChar k) \<and> digitValue (digitChar k) = k"
proof -
  from assms have "k \<in> {0, 1, 2, 3, 4, 5, 6, 7, 8, 9}"
    by auto
  then show ?thesis
    by (auto simp: digitChar_def isDigit_def digitValue_def)
qed

lemma isDigit_digits: "list_all isDigit (digits n)"
proof (induction n rule: digits.induct)
  case (1 n)
  show ?case
  proof (cases "n < 10")
    case True
    then show ?thesis by (simp add: digits_lt_10 digitChar_cases)
  next
    case False
    with 1 show ?thesis by (simp add: digits_ge_10 digitChar_cases)
  qed
qed

lemma value_digits: "foldl (\<lambda>acc c. 10 * acc + digitValue c) 0 (digits n) = n"
proof (induction n rule: digits.induct)
  case (1 n)
  show ?case
  proof (cases "n < 10")
    case True
    then show ?thesis by (simp add: digits_lt_10 digitChar_cases)
  next
    case False
    with 1 show ?thesis by (simp add: digits_ge_10 digitChar_cases)
  qed
qed

lemma value_zeros: "foldl (\<lambda>acc c. 10 * acc + digitValue c) 0 (replicate k (CHR ''0'')) = 0"
  by (induction k) (simp_all add: digitValue_def)

lemma isDigit_zeroPad: "list_all isDigit (zeroPad w (digits n))"
proof -
  have "isDigit (CHR ''0'')"
    by (simp add: isDigit_def)
  then have "list_all isDigit (replicate (w - length (digits n)) (CHR ''0''))"
    by (simp add: list_all_iff)
  then show ?thesis
    by (simp add: zeroPad_def isDigit_digits)
qed

lemma parseDigits_zeroPad: "parseDigits (zeroPad w (digits n)) = Some n"
proof -
  have "zeroPad w (digits n) \<noteq> []"
    by (simp add: zeroPad_def digits_not_Nil)
  moreover have "foldl (\<lambda>acc c. 10 * acc + digitValue c) 0 (zeroPad w (digits n)) = n"
    by (simp add: zeroPad_def value_zeros value_digits)
  ultimately show ?thesis
    by (simp add: parseDigits_def isDigit_zeroPad)
qed

lemma colon_notin_zeroPad: "c \<in> set (zeroPad w (digits n)) \<Longrightarrow> c \<noteq> CHR '':''"
  using isDigit_zeroPad [of w n] by (auto simp: list_all_iff isDigit_def)

lemma length_zeroPad2: "n < 100 \<Longrightarrow> length (zeroPad 2 (digits n)) = 2"
  using length_digits_lt_100 [of n] by (cases "n < 10") (simp_all add: zeroPad_def digits_lt_10)

lemma length_zeroPad3: "n < 1000 \<Longrightarrow> length (zeroPad 3 (digits n)) = 3"
  using length_digits_lt_100 [of n] length_digits_lt_1000 [of n]
  by (cases "n < 10"; cases "n < 100") (simp_all add: zeroPad_def digits_lt_10)

lemma length_zeroPad_ge: "w \<le> length (zeroPad w str)"
  by (simp add: zeroPad_def)


text \<open>The reference parser on a string of four padded components.\<close>

lemma parseTimespan_ref_format:
  assumes "m < 60" "s < 60" "ms < 1000"
  shows "parseTimespan_ref (zeroPad 2 (digits h) @ '':'' @ zeroPad 2 (digits m) @ '':'' @
           zeroPad 2 (digits s) @ ''.'' @ zeroPad 3 (digits ms)) =
         Some (int h * 3600000 + int m * 60000 + int s * 1000 + int ms)"
proof -
  define H where "H = zeroPad 2 (digits h)"
  define M where "M = zeroPad 2 (digits m)"
  define S where "S = zeroPad 2 (digits s)"
  define X where "X = zeroPad 3 (digits ms)"
  define rest where "rest = '':'' @ M @ '':'' @ S @ ''.'' @ X"
  have pH: "parseDigits H = Some h" and pM: "parseDigits M = Some m"
    and pS: "parseDigits S = Some s" and pX: "parseDigits X = Some ms"
    by (simp_all add: H_def M_def S_def X_def parseDigits_zeroPad)
  have lH: "2 \<le> length H"
    by (simp add: H_def length_zeroPad_ge)
  have "length M = 2" "length S = 2" "length X = 3"
    using assms by (simp_all add: M_def S_def X_def length_zeroPad2 length_zeroPad3)
  then obtain m1 m2 s1 s2 x1 x2 x3 where M: "M = [m1, m2]" and S: "S = [s1, s2]"
    and X: "X = [x1, x2, x3]"
    by (auto simp: length_Suc_conv eval_nat_numeral)
  have "\<And>c. c \<in> set H \<Longrightarrow> c \<noteq> CHR '':''"
    unfolding H_def by (rule colon_notin_zeroPad)
  then have tw: "takeWhile (\<lambda>c. c \<noteq> CHR '':'') (H @ rest) = H"
    and dw: "dropWhile (\<lambda>c. c \<noteq> CHR '':'') (H @ rest) = rest"
    by (simp_all add: takeWhile_append2 dropWhile_append2 rest_def)
  have "parseTimespan_ref (H @ rest) =
          Some (int h * 3600000 + int m * 60000 + int s * 1000 + int ms)"
    unfolding parseTimespan_ref_def Let_def tw dw
    using lH pH pM pS pX assms by (simp add: rest_def M S X)
  then show ?thesis
    by (simp add: H_def rest_def M_def S_def X_def)
qed


text \<open>
  Parsing the string of the source gives back the span as the subtraction of doubles gave
  it, for every pair of dates with the end not before the start.
\<close>

lemma parseTimespan_ref_timeSpanToString:
  assumes "startDate \<le> endDate"
  shows "parseTimespan_ref (timeSpanToString startDate endDate) =
           Some (roundToDouble (endDate - startDate))"
proof -
  define d where "d = roundToDouble (endDate - startDate)"
  have d: "0 \<le> d"
    using assms by (simp add: d_def roundToDouble_nonneg)
  define r1 where "r1 = d mod 3600000"
  define r2 where "r2 = r1 mod 60000"
  define r3 where "r3 = r2 mod 1000"
  define h where "h = nat (d div 3600000)"
  define m where "m = nat (r1 div 60000)"
  define s where "s = nat (r2 div 1000)"
  define ms where "ms = nat r3"
  have r1: "0 \<le> r1" "r1 < 3600000" and r2: "0 \<le> r2" "r2 < 60000"
    and r3: "0 \<le> r3" "r3 < 1000"
    by (simp_all add: r1_def r2_def r3_def)
  have qh: "0 \<le> d div 3600000" and qm: "0 \<le> r1 div 60000" and qs: "0 \<le> r2 div 1000"
    using d r1 r2 by (simp_all add: pos_imp_zdiv_nonneg_iff)
  have "r1 = r1 div 60000 * 60000 + r1 mod 60000" "0 \<le> r1 mod 60000"
    by simp_all
  then have "r1 div 60000 < 60"
    using r1 by linarith
  moreover have "r2 = r2 div 1000 * 1000 + r2 mod 1000" "0 \<le> r2 mod 1000"
    by simp_all
  then have "r2 div 1000 < 60"
    using r2 by linarith
  ultimately have bounds: "m < 60" "s < 60" "ms < 1000"
    using qm qs r3 by (simp_all add: m_def s_def ms_def)
  have str: "numberToString (d div 3600000) = digits h" "numberToString (r1 div 60000) = digits m"
    "numberToString (r2 div 1000) = digits s" "numberToString r3 = digits ms"
    using qh qm qs r3 by (simp_all add: numberToString_def h_def m_def s_def ms_def)
  have "timeSpanToString startDate endDate =
      zeroPad 2 (digits h) @ '':'' @ zeroPad 2 (digits m) @ '':'' @
      zeroPad 2 (digits s) @ ''.'' @ zeroPad 3 (digits ms)"
    using assms
    by (simp add: timeSpanToString_nonneg Let_def d_def [symmetric] str
        r1_def [symmetric] r2_def [symmetric] r3_def [symmetric])
  then have "parseTimespan_ref (timeSpanToString startDate endDate) =
      Some (int h * 3600000 + int m * 60000 + int s * 1000 + int ms)"
    by (simp only: parseTimespan_ref_format [OF bounds])
  moreover have "int h * 3600000 + int m * 60000 + int s * 1000 + int ms = d"
  proof -
    have "d = d div 3600000 * 3600000 + r1"
      by (simp add: r1_def)
    moreover have "r1 = r1 div 60000 * 60000 + r2"
      by (simp add: r2_def)
    moreover have "r2 = r2 div 1000 * 1000 + r3"
      by (simp add: r3_def)
    moreover have "int h = d div 3600000" "int m = r1 div 60000" "int s = r2 div 1000"
      "int ms = r3"
      using qh qm qs r3 by (simp_all add: h_def m_def s_def ms_def)
    ultimately show ?thesis
      by linarith
  qed
  ultimately show ?thesis
    by (simp add: d_def)
qed


text \<open>
  Claim C5. For every millisecond count \<open>d\<close> that is not negative, the reference parser of
  the format \<open>HH:mm:ss.sss\<close>, applied to \<open>timeSpanToString startDate endDate\<close> with
  \<open>endDate - startDate = d\<close>, recovers exactly \<open>d\<close>.

  The claim holds for every \<open>d\<close> of at most \<open>2^53\<close> = 9007199254740992 milliseconds.
\<close>

theorem timeSpanToString_parse_roundtrip:
  assumes "0 \<le> d" and "d \<le> 9007199254740992" and "endDate - startDate = d"
  shows "parseTimespan_ref (timeSpanToString startDate endDate) = Some d"
proof -
  have "startDate \<le> endDate"
    using assms by simp
  then have "parseTimespan_ref (timeSpanToString startDate endDate) =
      Some (roundToDouble (endDate - startDate))"
    by (rule parseTimespan_ref_timeSpanToString)
  moreover have "roundToDouble (endDate - startDate) = d"
    using assms by (simp add: roundToDouble_exact)
  ultimately show ?thesis
    by simp
qed

text \<open>The span of 123 hours, 4 minutes, 5 seconds and 6 milliseconds again.\<close>

theorem timeSpanToString_parse_roundtrip_witness:
  "(0::int) \<le> 443045006 \<and> (443045006::int) \<le> 9007199254740992 \<and>
   (949842245006::int) - 949399200000 = 443045006 \<and>
   parseTimespan_ref (timeSpanToString 949399200000 949842245006) = Some 443045006"
  using timeSpanToString_parse_roundtrip [of 443045006 949842245006 949399200000]
  by simp

text \<open>
  The claim fails on a longer span. Between the earliest valid date and one millisecond
  before the latest, \<open>d\<close> is 17,279,999,999,999,999; the source formats the rounded span, and
  the string parses back to 17,280,000,000,000,000.
\<close>

theorem timeSpanToString_parse_roundtrip_counterexample:
  "(0::int) \<le> 17279999999999999 \<and>
   (8639999999999999::int) - (- 8640000000000000) = 17279999999999999 \<and>
   parseTimespan_ref (timeSpanToString (- 8640000000000000) 8639999999999999) =
     Some 17280000000000000 \<and>
   parseTimespan_ref (timeSpanToString (- 8640000000000000) 8639999999999999) \<noteq>
     Some 17279999999999999"
proof -
  have "parseTimespan_ref (timeSpanToString (- 8640000000000000) 8639999999999999) =
      Some 17280000000000000"
    by (simp add: parseTimespan_ref_timeSpanToString roundToDouble_longest_odd_span)
  then show ?thesis
    by simp
qed

text \<open>The reference parser accepts the format and nothing close to it.\<close>

lemma parseTimespan_ref_examples:
  "parseTimespan_ref ''123:04:05.006'' = Some 443045006"
  "parseTimespan_ref ''00:00:00.000'' = Some 0"
  "parseTimespan_ref ''1:04:05.006'' = None"
  "parseTimespan_ref ''01:04:05.06'' = None"
  "parseTimespan_ref ''01:64:05.006'' = None"
  "parseTimespan_ref ''01:04:05:006'' = None"
  "parseTimespan_ref ''0a:04:05.006'' = None"
  by code_simp+


section \<open>angleBetweenClockHands\<close>

lemma getUTCHours_range: "0 \<le> getUTCHours t \<and> getUTCHours t < 24"
  by (simp add: getUTCHours_def)

lemma getUTCMinutes_range: "0 \<le> getUTCMinutes t \<and> getUTCMinutes t < 60"
  by (simp add: getUTCMinutes_def)

text \<open>The subtraction of 12 in the source is the reduction of the hour modulo 12.\<close>

lemma hour_12_form:
  "(if getUTCHours t \<ge> 12 then getUTCHours t - 12 else getUTCHours t) = getUTCHours t mod 12"
proof -
  have "0 \<le> getUTCHours t" "getUTCHours t < 24"
    using getUTCHours_range by simp_all
  then show ?thesis
    by presburger
qed

text \<open>
  The source tests the signed angle against 180 before it takes the absolute value; the
  specification takes the absolute value first. The two orders agree on a signed angle of
  at least -180 degrees.
\<close>

lemma shorter_angle:
  fixes a :: real
  assumes "- 180 \<le> a" "a \<le> 360"
  shows "\<bar>if a > 180 then 360 - a else a\<bar> = (if \<bar>a\<bar> > 180 then 360 - \<bar>a\<bar> else \<bar>a\<bar>)"
  using assms by (cases "a > 180") (simp_all add: abs_if)

lemma angle_agrees_above_minus_180:
  assumes "- 180 \<le> real_of_int ((getUTCHours t mod 12) * 60 + getUTCMinutes t) / 2
                      - real_of_int (6 * getUTCMinutes t)"
  shows "angleBetweenClockHands t = angleBetweenHands_spec t"
proof -
  define h where "h = getUTCHours t mod 12"
  define m where "m = getUTCMinutes t"
  define a where "a = real_of_int (h * 60 + m) / 2 - real_of_int (6 * m)"
  have "h < 12" "0 \<le> m"
    using getUTCMinutes_range [of t] by (simp_all add: h_def m_def)
  then have "real_of_int h \<le> 11" "0 \<le> real_of_int m"
    by simp_all
  moreover have "a = 30 * real_of_int h - 11 / 2 * real_of_int m"
    by (simp add: a_def field_simps)
  ultimately have "a \<le> 360"
    by linarith
  moreover have "- 180 \<le> a"
    using assms by (simp only: a_def h_def m_def)
  ultimately have "\<bar>if a > 180 then 360 - a else a\<bar> = (if \<bar>a\<bar> > 180 then 360 - \<bar>a\<bar> else \<bar>a\<bar>)"
    by (rule shorter_angle [rotated])
  then show ?thesis
    unfolding angleBetweenClockHands_def angleBetweenHands_spec_def Let_def hour_12_form
      h_def [symmetric] m_def [symmetric] a_def [symmetric]
    by (simp only:)
qed

text \<open>
  Claim C1. The result of \<open>angleBetweenClockHands\<close> is within \<open>[0, \<pi>]\<close> for every date. The
  source does not keep to it: at 00:59 UTC on 5 March 2016 (time value 1457139540000) the
  signed angle is -324.5 degrees, the test \<open>angle > 180\<close> fails, and the result is 324.5
  degrees in radians, which is above \<open>\<pi>\<close>.
\<close>

theorem angleBetweenClockHands_exceeds_pi:
  "angleBetweenClockHands 1457139540000 = 649 * pi / 360 \<and>
   pi < angleBetweenClockHands 1457139540000"
proof -
  have c: "angleBetweenClockHands 1457139540000 = 649 * pi / 360"
    by (simp add: angleBetweenClockHands_def getUTCHours_def getUTCMinutes_def)
  show ?thesis unfolding c by simp
qed

text \<open>
  Claim C2. \<open>angleBetweenClockHands\<close> computes the algorithm of the specification: absolute
  value first, then 360 minus the angle when it exceeds 180. The source does not: at
  00:33 UTC on 5 April 2016 (time value 1459816380000) the signed angle is -181.5 degrees,
  the source returns 181.5 degrees in radians and the algorithm of the specification 178.5.
\<close>

theorem angleBetweenClockHands_differs_from_spec:
  "angleBetweenClockHands 1459816380000 = 121 * pi / 120 \<and>
   angleBetweenHands_spec 1459816380000 = 119 * pi / 120 \<and>
   angleBetweenClockHands 1459816380000 \<noteq> angleBetweenHands_spec 1459816380000"
proof -
  have c: "angleBetweenClockHands 1459816380000 = 121 * pi / 120"
    by (simp add: angleBetweenClockHands_def getUTCHours_def getUTCMinutes_def)
  have s: "angleBetweenHands_spec 1459816380000 = 119 * pi / 120"
    by (simp add: angleBetweenHands_spec_def getUTCHours_def getUTCMinutes_def)
  show ?thesis unfolding c s by simp
qed

text \<open>
  Claim C8. \<open>angleBetweenClockHands\<close> returns 0 at 00:00 UTC, \<open>\<pi>/2\<close> at 03:00 UTC, \<open>\<pi>\<close> at
  18:00 UTC and \<open>\<pi>/2\<close> at 21:00 UTC, on any day.
\<close>

theorem angleBetweenClockHands_examples:
  "(getUTCHours date = 0 \<and> getUTCMinutes date = 0 \<longrightarrow> angleBetweenClockHands date = 0) \<and>
   (getUTCHours date = 3 \<and> getUTCMinutes date = 0 \<longrightarrow> angleBetweenClockHands date = pi / 2) \<and>
   (getUTCHours date = 18 \<and> getUTCMinutes date = 0 \<longrightarrow> angleBetweenClockHands date = pi) \<and>
   (getUTCHours date = 21 \<and> getUTCMinutes date = 0 \<longrightarrow> angleBetweenClockHands date = pi / 2)"
  by (simp add: angleBetweenClockHands_def)

text \<open>
  The four dates of the examples: \<open>Date.UTC(2016,2,5,0,0)\<close>, \<open>Date.UTC(2016,3,5,3,0)\<close>,
  \<open>Date.UTC(2016,3,5,18,0)\<close> and \<open>Date.UTC(2016,3,5,21,0)\<close>.
\<close>

theorem angleBetweenClockHands_examples_witness:
  "angleBetweenClockHands 1457136000000 = 0 \<and>
   angleBetweenClockHands 1459825200000 = pi / 2 \<and>
   angleBetweenClockHands 1459879200000 = pi \<and>
   angleBetweenClockHands 1459890000000 = pi / 2"
proof -
  have "getUTCHours 1457136000000 = 0 \<and> getUTCMinutes 1457136000000 = 0"
    "getUTCHours 1459825200000 = 3 \<and> getUTCMinutes 1459825200000 = 0"
    "getUTCHours 1459879200000 = 18 \<and> getUTCMinutes 1459879200000 = 0"
    "getUTCHours 1459890000000 = 21 \<and> getUTCMinutes 1459890000000 = 0"
    by (simp_all add: getUTCHours_def getUTCMinutes_def)
  then show ?thesis
    using angleBetweenClockHands_examples [of 1457136000000]
      angleBetweenClockHands_examples [of 1459825200000]
      angleBetweenClockHands_examples [of 1459879200000]
      angleBetweenClockHands_examples [of 1459890000000]
    by simp
qed

text \<open>
  Claim C10. Two dates with the same UTC hour and the same UTC minute give the same result:
  the year, month, day, seconds and milliseconds of the date do not matter.
\<close>

theorem angleBetweenClockHands_hour_minute_only:
  "getUTCHours d1 = getUTCHours d2 \<Longrightarrow> getUTCMinutes d1 = getUTCMinutes d2 \<Longrightarrow>
     angleBetweenClockHands d1 = angleBetweenClockHands d2"
  by (simp add: angleBetweenClockHands_def)

text \<open>03:00:00.000 UTC on 5 April 2016 and 03:00:12.345 UTC on 1 February 2000.\<close>

theorem angleBetweenClockHands_hour_minute_only_witness:
  "getUTCHours 1459825200000 = getUTCHours 949374012345 \<and>
   getUTCMinutes 1459825200000 = getUTCMinutes 949374012345 \<and>
   angleBetweenClockHands 1459825200000 = angleBetweenClockHands 949374012345"
proof -
  have h: "getUTCHours 1459825200000 = getUTCHours 949374012345"
    by (simp add: getUTCHours_def)
  have m: "getUTCMinutes 1459825200000 = getUTCMinutes 949374012345"
    by (simp add: getUTCMinutes_def)
  show ?thesis
    using h m angleBetweenClockHands_hour_minute_only [OF h m] by simp
qed

end
